theory Spec2Isabelle
  imports Main
begin

section \<open>Element trees\<close>

text \<open>
  The value a component returns is a tree of elements. \<open>Elem\<close> is a \<open>JSX.Element\<close>
  handed in by the caller and never inspected; \<open>Navigation\<close> and \<open>Footer\<close> are the
  elements \<open><Navigation />\<close> and \<open><Footer />\<close>, which take no props; \<open>Div\<close> is a
  \<open><div>\<close> with its \<open>className\<close> and its children; \<open>Frag\<close> is \<open><>...</>\<close>; \<open>Arr\<close> is
  a JavaScript array in child position and \<open>Undefined\<close> is \<open>undefined\<close> in child position.
\<close>

datatype 'a node =
    Elem 'a
  | Navigation
  | Footer
  | Div string "'a node list"
  | Frag "'a node list"
  | Arr "'a node list"
  | Undefined

text \<open>
  \<open>type Props = { children?: JSX.Element | JSX.Element[] }\<close>: the field is optional, and
  when present it is one element or an array of elements.
\<close>

datatype 'a element_or_array = Single 'a | Multiple "'a list"

record 'a Props =
  children :: "'a element_or_array option"

text \<open>The expression \<open>{children}\<close> in child position.\<close>

fun child_node :: "'a element_or_array option \<Rightarrow> 'a node" where
  "child_node None = Undefined"
| "child_node (Some (Single e)) = Elem e"
| "child_node (Some (Multiple es)) = Arr (map Elem es)"

text \<open>The supplied children as a sequence: zero, one or many.\<close>

fun child_list :: "'a Props \<Rightarrow> 'a list" where
  "child_list p =
     (case children p of None \<Rightarrow> [] | Some (Single e) \<Rightarrow> [e] | Some (Multiple es) \<Rightarrow> es)"

definition banner_class :: string where
  "banner_class = ''absolute w-full h-2 bg-gradient-to-r from-amber-500 to-pink-500''"

definition container_class :: string where
  "container_class = ''flex flex-col flex-1 mx-auto w-full max-w-[1400px] min-h-screen''"

subsection \<open>What an element tree puts on the page\<close>

text \<open>
  The rendering library turns an element tree into page nodes: a fragment and an array
  contribute their children in order, \<open>undefined\<close> contributes nothing, a \<open><div>\<close> is one
  page node holding what its children contribute.
\<close>

datatype 'a dom = DElem 'a | DNavigation | DFooter | DDiv string "'a dom list"

fun to_dom :: "'a node \<Rightarrow> 'a dom list" where
  "to_dom (Elem e) = [DElem e]"
| "to_dom Navigation = [DNavigation]"
| "to_dom Footer = [DFooter]"
| "to_dom (Div c ns) = [DDiv c (concat (map to_dom ns))]"
| "to_dom (Frag ns) = concat (map to_dom ns)"
| "to_dom (Arr ns) = concat (map to_dom ns)"
| "to_dom Undefined = []"

text \<open>The page nodes strictly inside a page node.\<close>

fun descendants :: "'a dom \<Rightarrow> 'a dom list" where
  "descendants (DDiv c ds) = ds @ concat (map descendants ds)"
| "descendants (DElem e) = []"
| "descendants DNavigation = []"
| "descendants DFooter = []"

section \<open>The hooks of one component instance\<close>

text \<open>
  \<open>useState\<close> and \<open>useEffect\<close> are imported from the rendering library. Their contract is
  modelled on the per-instance record the library keeps:
  \<^item> \<open>domLoaded\<close> is the cell of \<open>useState(false)\<close>: \<open>None\<close> until the first render
    initialises it, afterwards the value a render reads;
  \<^item> \<open>queue\<close> holds the values the setter has recorded and no render has processed yet;
  \<^item> \<open>deps\<close> is the dependency array \<open>useEffect\<close> saw in the previous render;
  \<^item> \<open>pending\<close> are the effect callbacks scheduled by a render and not yet run;
  \<^item> \<open>scheduled\<close> records that a state update asked for a re-render.
  The only effect callback of the component is \<open>() => { setDomLoaded(true) }\<close>.
\<close>

datatype effect = SetDomLoaded bool

record fiber =
  domLoaded :: "bool option"
  queue :: "bool list"
  deps :: "unit list option"
  pending :: "effect list"
  scheduled :: bool

text \<open>
  What a call of the setter does: it records that the cell goes from one value to another,
  and it asks for a re-render.
\<close>

datatype update = Transition bool bool | Requested

text \<open>What an observer of one instance sees happen: a render with its props and its result,
  or a state update.\<close>

datatype 'a action =
    Rendered "'a Props" "'a node"
  | Hook update

definition blank :: fiber where
  "blank = \<lparr>domLoaded = None, queue = [], deps = None, pending = [], scheduled = False\<rparr>"

text \<open>\<open>useRouter()\<close> hands back the router of the surrounding context.\<close>

definition useRouter :: "'r \<Rightarrow> 'r" where
  "useRouter ctx = ctx"

text \<open>
  \<open>useState(initial)\<close>: the first render stores the initial value, every later render reads
  the cell.
\<close>

definition useState :: "bool \<Rightarrow> fiber \<Rightarrow> bool \<times> fiber" where
  "useState initial f =
     (case domLoaded f of
        None \<Rightarrow> (initial, f\<lparr>domLoaded := Some initial\<rparr>)
      | Some v \<Rightarrow> (v, f))"

text \<open>
  \<open>useEffect(body, ds)\<close>: the callback is scheduled when there is no previous dependency
  array or it differs from the new one. With \<open>[]\<close> that is the first render only.
\<close>

definition useEffect :: "effect \<Rightarrow> unit list \<Rightarrow> fiber \<Rightarrow> fiber" where
  "useEffect body ds f =
     (if deps f = Some ds then f
      else f\<lparr>deps := Some ds, pending := pending f @ [body]\<rparr>)"

text \<open>The value recorded last: the newest queued one, or the cell when nothing is queued.\<close>

definition latest :: "fiber \<Rightarrow> bool option" where
  "latest f = (if queue f = [] then domLoaded f else Some (last (queue f)))"

text \<open>
  The setter returned by \<open>useState\<close>: storing the value already recorded does nothing;
  storing another value puts it in the queue and asks for a re-render. The cell itself
  changes when a render processes the queue.
\<close>

definition setDomLoaded :: "bool \<Rightarrow> fiber \<Rightarrow> fiber \<times> update list" where
  "setDomLoaded v f =
     (case latest f of
        None \<Rightarrow> (f, [])
      | Some old \<Rightarrow>
          if old = v then (f, [])
          else (f\<lparr>queue := queue f @ [v], scheduled := True\<rparr>, [Transition old v, Requested]))"

text \<open>
  The library gives every render a priority, and a render processes the queued updates its
  priority includes. The setter is called from an effect callback, which queues at the
  default priority: a render at the default priority (\<open>DefaultLane\<close>) moves the queued
  value into the cell, a render at the higher, synchronous priority (\<open>SyncLane\<close>) leaves
  it queued and reads the cell as it was. Where the library renders every update at one
  priority, every render is a \<open>DefaultLane\<close> render.
\<close>

datatype lane = SyncLane | DefaultLane

fun process :: "lane \<Rightarrow> fiber \<Rightarrow> fiber" where
  "process SyncLane f = f"
| "process DefaultLane f = f\<lparr>domLoaded := latest f, queue := [], scheduled := False\<rparr>"

section \<open>The component\<close>

definition Layout :: "'r \<Rightarrow> 'a Props \<Rightarrow> fiber \<Rightarrow> fiber \<times> 'a node" where
  "Layout ctx props f =
     (let router = useRouter ctx;
          (loaded, f1) = useState False f;
          f2 = useEffect (SetDomLoaded True) [] f1
      in if loaded then
           (f2, Frag [Div banner_class [],
                      Div container_class [Navigation, child_node (children props), Footer]])
         else (f2, Frag []))"

section \<open>The life of an instance\<close>

fun run_effect :: "effect \<Rightarrow> fiber \<Rightarrow> fiber \<times> update list" where
  "run_effect (SetDomLoaded v) f = setDomLoaded v f"

fun run_effects :: "effect list \<Rightarrow> fiber \<Rightarrow> fiber \<times> update list" where
  "run_effects [] f = (f, [])"
| "run_effects (e # es) f =
     (let (f1, a1) = run_effect e f;
          (f2, a2) = run_effects es f1
      in (f2, a1 @ a2))"

text \<open>Running the scheduled effect callbacks empties the list.\<close>

definition flush :: "fiber \<Rightarrow> fiber \<times> update list" where
  "flush f = (let (f1, us) = run_effects (pending f) f in (f1\<lparr>pending := []\<rparr>, us))"

text \<open>
  The events of one instance. \<open>Mount\<close> constructs the instance and renders it for the first
  time; \<open>Flush\<close> is the library running scheduled effect callbacks; \<open>Rerender\<close> is any later
  render, asked for by a state update or by the parent, with the priority, props and
  router of that moment; \<open>Unmount\<close> removes the instance. The library runs the scheduled
  callbacks before it starts new render work, so \<open>Rerender\<close> and \<open>Unmount\<close> begin with a
  flush; a render then processes the queue as its priority allows and calls the component.
\<close>

datatype ('a, 'r) event =
    Mount "'a Props" 'r
  | Flush
  | Rerender lane "'a Props" 'r
  | Unmount

fun is_Mount :: "('a, 'r) event \<Rightarrow> bool" where
  "is_Mount (Mount p r) = True"
| "is_Mount Flush = False"
| "is_Mount (Rerender l p r) = False"
| "is_Mount Unmount = False"


text \<open>
  \<open>None\<close> is the unmounted instance. A step is \<open>None\<close> when the event cannot happen in that
  state: there is nothing to render or remove before the mount, and no second mount.
\<close>

fun step :: "('a, 'r) event \<Rightarrow> fiber option \<Rightarrow> (fiber option \<times> 'a action list) option" where
  "step (Mount p r) None =
     (let (f, out) = Layout r p blank in Some (Some f, [Rendered p out]))"
| "step (Mount p r) (Some f) = None"
| "step Flush None = Some (None, [])"
| "step Flush (Some f) = (let (f1, us) = flush f in Some (Some f1, map Hook us))"
| "step (Rerender l p r) None = None"
| "step (Rerender l p r) (Some f) =
     (let (f1, us) = flush f;
          (f2, out) = Layout r p (process l f1)
      in Some (Some f2, map Hook us @ [Rendered p out]))"
| "step Unmount None = None"
| "step Unmount (Some f) = (let (f1, us) = flush f in Some (None, map Hook us))"

text \<open>A run: the state reached and the actions seen at each event, in order.\<close>

fun trace :: "fiber option \<Rightarrow> ('a, 'r) event list \<Rightarrow>
    (fiber option \<times> 'a action list) list option" where
  "trace s [] = Some []"
| "trace s (e # es) =
     (case step e s of
        None \<Rightarrow> None
      | Some (s1, acts) \<Rightarrow>
          (case trace s1 es of None \<Rightarrow> None | Some t \<Rightarrow> Some ((s1, acts) # t)))"

definition actions :: "(fiber option \<times> 'a action list) list \<Rightarrow> 'a action list" where
  "actions t = concat (map snd t)"


fun is_Rendered :: "'a action \<Rightarrow> bool" where
  "is_Rendered (Rendered p out) = True"
| "is_Rendered (Hook u) = False"

text \<open>The flag of a state: \<open>None\<close> when there is no instance.\<close>

fun flag :: "fiber option \<Rightarrow> bool option" where
  "flag None = None"
| "flag (Some f) = domLoaded f"

text \<open>The changes of the flag along a sequence of states of a mounted instance.\<close>

fun flips :: "bool option list \<Rightarrow> (bool \<times> bool) list" where
  "flips (Some a # Some b # xs) =
     (if a = b then flips (Some b # xs) else (a, b) # flips (Some b # xs))"
| "flips (x # y # xs) = flips (y # xs)"
| "flips xs = []"

section \<open>Predicates used in the statements\<close>

text \<open>
  A mounted instance is \<open>waiting\<close> between its first render and the run of its effect
  callback, \<open>queued\<close> from then until a render processes the update, and \<open>ready\<close>
  afterwards.
\<close>

definition waiting :: "fiber \<Rightarrow> bool" where
  "waiting f \<longleftrightarrow>
     domLoaded f = Some False \<and> queue f = [] \<and> deps f = Some [] \<and>
     pending f = [SetDomLoaded True]"

definition queued :: "fiber \<Rightarrow> bool" where
  "queued f \<longleftrightarrow>
     domLoaded f = Some False \<and> queue f = [True] \<and> deps f = Some [] \<and> pending f = []"

definition ready :: "fiber \<Rightarrow> bool" where
  "ready f \<longleftrightarrow>
     domLoaded f = Some True \<and> queue f = [] \<and> deps f = Some [] \<and> pending f = []"

text \<open>The tree the component returns when the flag is set.\<close>

definition frame :: "'a Props \<Rightarrow> 'a node" where
  "frame p = Frag [Div banner_class [],
                   Div container_class [Navigation, child_node (children p), Footer]]"

text \<open>The states in which the effect callback has run, or the instance is gone.\<close>

fun started :: "fiber option \<Rightarrow> bool" where
  "started None = True"
| "started (Some f) = (queued f \<or> ready f)"




text \<open>
  The reading under which the banner, too, is inside the container: some page node with the
  container's class has the banner, the navigation, every supplied child and the footer
  among its descendants.
\<close>

fun is_container :: "'a dom \<Rightarrow> bool" where
  "is_container (DDiv c ds) = (c = container_class)"
| "is_container (DElem e) = False"
| "is_container DNavigation = False"
| "is_container DFooter = False"

definition all_inside_container :: "'a Props \<Rightarrow> 'a dom list \<Rightarrow> bool" where
  "all_inside_container p page =
     list_ex (\<lambda>c. is_container c \<and>
        list_all (\<lambda>d. d \<in> set (descendants c))
          (DDiv banner_class [] # DNavigation # map DElem (child_list p) @ [DFooter])) page"

section \<open>Renders and effect runs\<close>

lemmas hook_defs = Layout_def useState_def useEffect_def useRouter_def flush_def
  setDomLoaded_def latest_def

lemma Layout_blank:
  "Layout r p blank =
     (\<lparr>domLoaded = Some False, queue = [], deps = Some [], pending = [SetDomLoaded True],
       scheduled = False\<rparr>, Frag [])"
  by (simp add: Layout_def useState_def useEffect_def blank_def)

lemma Layout_loaded: "domLoaded f = Some True \<Longrightarrow> snd (Layout r p f) = frame p"
  by (simp add: Layout_def useState_def frame_def)

lemma to_dom_child_node: "to_dom (child_node (children p)) = map DElem (child_list p)"
  by (cases "children p" rule: child_node.cases) (simp_all add: comp_def)

lemma to_dom_frame:
  "to_dom (frame p) =
     [DDiv banner_class [],
      DDiv container_class (DNavigation # map DElem (child_list p) @ [DFooter])]"
  unfolding frame_def using to_dom_child_node [of p] by simp

lemma step_Mount:
  "step (Mount p r) None =
     Some (Some \<lparr>domLoaded = Some False, queue = [], deps = Some [],
                 pending = [SetDomLoaded True], scheduled = False\<rparr>, [Rendered p (Frag [])])"
  by (simp add: Layout_blank)

text \<open>The effect run and the render in each of the three states of a mounted instance.\<close>

lemma flush_waiting:
  "waiting f \<Longrightarrow> snd (flush f) = [Transition False True, Requested] \<and> queued (fst (flush f))"
  by (simp add: flush_def setDomLoaded_def latest_def waiting_def queued_def)

lemma flush_queued: "queued f \<Longrightarrow> flush f = (f, [])"
  by (simp add: flush_def queued_def)

lemma flush_ready: "ready f \<Longrightarrow> flush f = (f, [])"
  by (simp add: flush_def ready_def)

lemma render_queued_Sync: "queued f \<Longrightarrow> Layout r p (process SyncLane f) = (f, Frag [])"
  by (simp add: hook_defs queued_def)

lemma render_queued_Default:
  "queued f \<Longrightarrow>
     snd (Layout r p (process DefaultLane f)) = frame p \<and>
     ready (fst (Layout r p (process DefaultLane f)))"
  by (simp add: hook_defs queued_def ready_def frame_def)

lemma render_ready:
  "ready f \<Longrightarrow>
     snd (Layout r p (process l f)) = frame p \<and> ready (fst (Layout r p (process l f)))"
  by (cases l) (simp_all add: hook_defs ready_def frame_def)

lemma step_Some:
  "step e (Some f) =
     (case e of
        Mount p r \<Rightarrow> None
      | Flush \<Rightarrow> Some (Some (fst (flush f)), map Hook (snd (flush f)))
      | Rerender l p r \<Rightarrow>
          Some (Some (fst (Layout r p (process l (fst (flush f))))),
                map Hook (snd (flush f)) @
                [Rendered p (snd (Layout r p (process l (fst (flush f)))))])
      | Unmount \<Rightarrow> Some (None, map Hook (snd (flush f))))"
  by (cases e) (simp_all add: split_beta)

section \<open>Runs of one lifecycle\<close>

lemma trace_Cons:
  "trace s (e # es) = Some t \<Longrightarrow>
     \<exists>s1 acts t1. step e s = Some (s1, acts) \<and> trace s1 es = Some t1 \<and> t = (s1, acts) # t1"
  by (auto split: option.splits)

lemma trace_Mount:
  "trace None (Mount p r # es) = Some t \<Longrightarrow>
     \<exists>f t1. waiting f \<and> t = (Some f, [Rendered p (Frag [])]) # t1 \<and> trace (Some f) es = Some t1"
  by (auto simp add: step_Mount waiting_def simp del: step.simps split: option.splits)

text \<open>One event in a state where the effect callback has run, or the instance is gone.\<close>

lemma flag_queued: "queued f \<Longrightarrow> domLoaded f = Some False"
  by (simp add: queued_def)

lemma flag_ready: "ready f \<Longrightarrow> domLoaded f = Some True"
  by (simp add: ready_def)

lemma step_started:
  assumes "step e s = Some (s1, acts)" and "started s" and "\<not> is_Mount e"
  shows "started s1 \<and> list_all is_Rendered acts \<and>
         (flag s1 = flag s \<or> flag s1 = None \<or> (flag s = Some False \<and> flag s1 = Some True))"
proof (cases s)
  case None
  with assms show ?thesis by (cases e) auto
next
  case (Some f)
  with assms(2) have "queued f \<or> ready f" by simp
  then show ?thesis
  proof
    assume q: "queued f"
    show ?thesis
    proof (cases e)
      case (Rerender l p r)
      with assms(1) Some q flag_queued [OF q] render_queued_Default [OF q, of r p] show ?thesis
        by (cases l) (auto simp add: step_Some flush_queued render_queued_Sync flag_ready
          simp del: process.simps)
    qed (use assms Some q in \<open>auto simp add: step_Some flush_queued\<close>)
  next
    assume r: "ready f"
    show ?thesis
    proof (cases e)
      case (Rerender l p x)
      with assms(1) Some r flag_ready [OF r] render_ready [OF r, of x p l] show ?thesis
        by (auto simp add: step_Some flush_ready flag_ready simp del: process.simps)
    qed (use assms Some r in \<open>auto simp add: step_Some flush_ready\<close>)
  qed
qed

text \<open>The first event after the mount: the callback runs, then the event's own render.\<close>

lemma step_waiting:
  assumes "step e (Some f) = Some (s1, acts)" and "waiting f"
  shows "started s1 \<and>
         (\<exists>a. acts = Hook (Transition False True) # Hook Requested # a \<and> list_all is_Rendered a)"
proof -
  from flush_waiting [OF assms(2)] have us: "snd (flush f) = [Transition False True, Requested]"
    and q: "queued (fst (flush f))"
    by simp_all
  show ?thesis
  proof (cases e)
    case (Rerender l p r)
    with assms(1) us q render_queued_Default [OF q, of r p] show ?thesis
      by (cases l) (auto simp add: step_Some render_queued_Sync simp del: process.simps)
  qed (use assms(1) us q in \<open>auto simp add: step_Some\<close>)
qed

lemma flag_started: "started s \<Longrightarrow> flag s = None \<or> flag s = Some False \<or> flag s = Some True"
  by (cases s) (auto simp add: queued_def ready_def)

text \<open>After the callback has run: renders only, and the flag goes from false to true at most.\<close>

lemma trace_started:
  "trace s es = Some t \<Longrightarrow> started s \<Longrightarrow> \<not> list_ex is_Mount es \<Longrightarrow>
     list_all is_Rendered (actions t) \<and>
     (flips (flag s # map flag (map fst t)) = [] \<or>
      flag s = Some False \<and> flips (flag s # map flag (map fst t)) = [(False, True)])"
proof (induction es arbitrary: s t)
  case Nil
  then show ?case by (cases "flag s") (simp_all add: actions_def)
next
  case (Cons e es)
  from trace_Cons [OF Cons.prems(1)] obtain s1 acts t1 where st: "step e s = Some (s1, acts)"
    and t1: "trace s1 es = Some t1" and t: "t = (s1, acts) # t1"
    by blast
  from Cons.prems(3) have ne: "\<not> is_Mount e" and nm: "\<not> list_ex is_Mount es" by simp_all
  from step_started [OF st Cons.prems(2) ne] have s1: "started s1"
    and acts: "list_all is_Rendered acts"
    and fl: "flag s1 = flag s \<or> flag s1 = None \<or> (flag s = Some False \<and> flag s1 = Some True)"
    by simp_all
  from Cons.IH [OF t1 s1 nm] have r: "list_all is_Rendered (actions t1)"
    and ih: "flips (flag s1 # map flag (map fst t1)) = [] \<or>
      flag s1 = Some False \<and> flips (flag s1 # map flag (map fst t1)) = [(False, True)]"
    by simp_all
  have "list_all is_Rendered (actions t)" using acts r t by (simp add: actions_def)
  moreover have "flips (flag s # map flag (map fst t)) = [] \<or>
      flag s = Some False \<and> flips (flag s # map flag (map fst t)) = [(False, True)]"
    using fl ih flag_started [OF Cons.prems(2)] flag_started [OF s1] t by auto
  ultimately show ?case by simp
qed











section \<open>Properties of the page shell\<close>




text \<open>
  C2. In every mount lifecycle, whatever children are supplied, the first render produces no
  visible output at all: no navigation, no footer, no content and no banner. The first
  render returns the empty fragment, which puts nothing on the page, and leaves the flag
  false.
\<close>

theorem first_render_is_empty:
  "\<exists>f out. step (Mount p r) None = Some (Some f, [Rendered p out]) \<and>
      domLoaded f = Some False \<and> out = Frag [] \<and> to_dom out = []"
  by (simp add: Layout_blank)

theorem first_render_is_empty_witness:
  "step (Mount \<lparr>children = Some (Multiple [1::nat, 2, 3])\<rparr> ()) None =
     Some (Some \<lparr>domLoaded = Some False, queue = [], deps = Some [],
                 pending = [SetDomLoaded True], scheduled = False\<rparr>,
           [Rendered \<lparr>children = Some (Multiple [1, 2, 3])\<rparr> (Frag [])])"
  using first_render_is_empty [of "\<lparr>children = Some (Multiple [1::nat, 2, 3])\<rparr>" "()"]
  by (simp add: Layout_blank)

text \<open>
  C3. In every mount lifecycle the flag \<open>domLoaded\<close> starts false at construction and,
  along every sequence of render and effect steps, changes at most once, only from false
  to true, and never from true back to false until the unmount. The flags of the states
  after each event begin with false, and the list of their changes is empty or is the
  single change from false to true.
\<close>

theorem flag_changes_at_most_once:
  assumes "trace None (Mount p r # es) = Some t" and "\<not> list_ex is_Mount es"
  shows "(\<exists>rest. map flag (map fst t) = Some False # rest) \<and>
         (flips (map flag (map fst t)) = [] \<or> flips (map flag (map fst t)) = [(False, True)])"
proof -
  from trace_Mount [OF assms(1)] obtain f t1 where f: "waiting f"
    and t: "t = (Some f, [Rendered p (Frag [])]) # t1" and t1: "trace (Some f) es = Some t1"
    by blast
  from f have ff: "flag (Some f) = Some False" by (simp add: waiting_def)
  show ?thesis
  proof (cases es)
    case Nil
    with t t1 ff show ?thesis by simp
  next
    case (Cons e es1)
    with assms(2) have nm: "\<not> list_ex is_Mount es1" by simp
    from trace_Cons [OF t1 [unfolded Cons]] obtain s1 acts t2
      where st: "step e (Some f) = Some (s1, acts)" and t2: "trace s1 es1 = Some t2"
        and t1': "t1 = (s1, acts) # t2"
      by blast
    from step_waiting [OF st f] have s1: "started s1" by simp
    from trace_started [OF t2 s1 nm] flag_started [OF s1] t t1' ff show ?thesis by auto
  qed
qed

theorem flag_changes_at_most_once_witness:
  "\<exists>t. trace None [Mount \<lparr>children = Some (Single (7::nat))\<rparr> (), Flush,
                     Rerender DefaultLane \<lparr>children = None\<rparr> (),
                     Rerender SyncLane \<lparr>children = None\<rparr> (), Unmount] = Some t \<and>
       map flag (map fst t) = [Some False, Some False, Some True, Some True, None] \<and>
       flips (map flag (map fst t)) = [(False, True)]"
proof -
  let ?es = "[Flush, Rerender DefaultLane \<lparr>children = None\<rparr> (),
              Rerender SyncLane \<lparr>children = None\<rparr> (), Unmount]"
  obtain t where t: "trace None (Mount \<lparr>children = Some (Single (7::nat))\<rparr> () # ?es) = Some t"
    by (simp add: hook_defs blank_def)
  have nm: "\<not> list_ex is_Mount ?es" by simp
  from flag_changes_at_most_once [OF t nm] t show ?thesis
    by (auto simp add: hook_defs blank_def)
qed



text \<open>
  C5, amended. For every render with the flag set, the page is the fixed decorative banner
  followed by the bounded-width centred container; the navigation, the supplied children
  and the footer are inside the container, in that order; the banner is the container's
  preceding sibling and is not inside it.
\<close>

theorem ready_render_banner_then_container:
  assumes "domLoaded f = Some True"
  shows "to_dom (snd (Layout r p f)) =
           [DDiv banner_class [],
            DDiv container_class (DNavigation # map DElem (child_list p) @ [DFooter])] \<and>
         DDiv banner_class [] \<notin> set (descendants
              (DDiv container_class (DNavigation # map DElem (child_list p) @ [DFooter])))"
proof -
  have "descendants (DDiv container_class (DNavigation # map DElem (child_list p) @ [DFooter])) =
          DNavigation # map DElem (child_list p) @ [DFooter]"
    by (induction "child_list p") (simp_all add: comp_def)
  then show ?thesis
    using Layout_loaded [OF assms, of r p] by (auto simp add: to_dom_frame)
qed

theorem ready_render_banner_then_container_witness:
  "to_dom (snd (Layout () \<lparr>children = Some (Multiple [1::nat, 2])\<rparr>
       \<lparr>domLoaded = Some True, queue = [], deps = Some [], pending = [],
        scheduled = False\<rparr>)) =
     [DDiv banner_class [], DDiv container_class [DNavigation, DElem 1, DElem 2, DFooter]]"
  using ready_render_banner_then_container
    [of "\<lparr>domLoaded = Some True, queue = [], deps = Some [], pending = [], scheduled = False\<rparr>"
      "()" "\<lparr>children = Some (Multiple [1::nat, 2])\<rparr>"]
  by simp

text \<open>
  As the claim C5 is worded, with the banner inside the container as well, it fails: with
  one child and the flag set, no page node with the container's class has the banner among
  its descendants.
\<close>

theorem banner_not_inside_container_counterexample:
  "\<not> all_inside_container \<lparr>children = Some (Single (1::nat))\<rparr>
        (to_dom (snd (Layout () \<lparr>children = Some (Single (1::nat))\<rparr>
           \<lparr>domLoaded = Some True, queue = [], deps = Some [], pending = [],
            scheduled = False\<rparr>)))"
  by (simp add: all_inside_container_def Layout_def useState_def useEffect_def useRouter_def
      banner_class_def container_class_def)

text \<open>
  C6. With zero children (the field absent, or an empty array), every render with the flag
  set still emits the banner, the navigation and the footer, with nothing between the
  navigation and the footer.
\<close>

theorem no_children_frame_only:
  assumes "domLoaded f = Some True" and "child_list p = []"
  shows "to_dom (snd (Layout r p f)) =
           [DDiv banner_class [], DDiv container_class [DNavigation, DFooter]]"
  using Layout_loaded [OF assms(1), of r p] assms(2) to_dom_frame [of p] by simp

theorem no_children_frame_only_witness:
  "to_dom (snd (Layout () (\<lparr>children = None\<rparr> :: nat Props)
       \<lparr>domLoaded = Some True, queue = [], deps = Some [], pending = [],
        scheduled = False\<rparr>)) =
     [DDiv banner_class [], DDiv container_class [DNavigation, DFooter]] \<and>
   to_dom (snd (Layout () (\<lparr>children = Some (Multiple [])\<rparr> :: nat Props)
       \<lparr>domLoaded = Some True, queue = [], deps = Some [], pending = [],
        scheduled = True\<rparr>)) =
     [DDiv banner_class [], DDiv container_class [DNavigation, DFooter]]"
  using no_children_frame_only
    [of "\<lparr>domLoaded = Some True, queue = [], deps = Some [], pending = [], scheduled = False\<rparr>"
      "\<lparr>children = None\<rparr> :: nat Props" "()"]
    no_children_frame_only
    [of "\<lparr>domLoaded = Some True, queue = [], deps = Some [], pending = [], scheduled = True\<rparr>"
      "\<lparr>children = Some (Multiple [])\<rparr> :: nat Props" "()"]
  by simp

text \<open>
  C10. Two renders with the same flag and the same children return the same tree, whatever
  the two routers are: the router is obtained and never used.
\<close>

theorem output_independent_of_router:
  assumes "domLoaded f1 = domLoaded f2" and "children p1 = children p2"
  shows "snd (Layout r1 p1 f1) = snd (Layout r2 p2 f2)"
  using assms by (simp add: Layout_def useState_def Let_def split: option.splits prod.splits)

theorem output_independent_of_router_witness:
  "snd (Layout ''/article/a'' \<lparr>children = Some (Single (1::nat))\<rparr>
          \<lparr>domLoaded = Some True, queue = [], deps = Some [], pending = [],
           scheduled = False\<rparr>) =
   snd (Layout ''/about'' \<lparr>children = Some (Single (1::nat))\<rparr>
          \<lparr>domLoaded = Some True, queue = [], deps = Some [], pending = [],
           scheduled = True\<rparr>)"
  using output_independent_of_router
    [of "\<lparr>domLoaded = Some True, queue = [], deps = Some [], pending = [], scheduled = False\<rparr>"
      "\<lparr>domLoaded = Some True, queue = [], deps = Some [], pending = [], scheduled = True\<rparr>"
      "\<lparr>children = Some (Single (1::nat))\<rparr>" "\<lparr>children = Some (Single (1::nat))\<rparr>"
      "''/article/a''" "''/about''"]
  by simp

end
